theory Spec2Isabelle
  imports Main "HOL-Library.Word"
begin

unbundle bit_operations_syntax

section \<open>The native time bridge of \<^verbatim>\<open>jsr-310.cpp\<close>\<close>

text \<open>
  The source file exports three functions to the Java runtime: \<^verbatim>\<open>JNI_OnLoad\<close>,
  \<^verbatim>\<open>Java_javax_time_impl_WindowsSystemTime_get\<close> and
  \<^verbatim>\<open>Java_javax_time_impl_WindowsSystemTime_getAdjustment\<close>. Each is modelled below as
  a function of what the operating system hands back to it.
\<close>

subsection \<open>The C types\<close>

text \<open>
  On Windows \<^verbatim>\<open>DWORD\<close> is an unsigned 32-bit integer and \<^verbatim>\<open>BOOL\<close> is a plain
  \<^verbatim>\<open>int\<close> whose value zero is false and every other value is true. The JNI types
  \<^verbatim>\<open>jint\<close> and \<^verbatim>\<open>jlong\<close> are signed 32-bit and 64-bit integers. All of them are
  words of their width here; a signed one is read with \<^const>\<open>sint\<close> and compared with
  \<^const>\<open>word_sle\<close>, so \<^verbatim>\<open>-1\<close> is the word with every bit set.
\<close>

type_synonym DWORD = "32 word"
type_synonym BOOL = "32 word"
type_synonym jint = "32 word"
type_synonym jlong = "64 word"
type_synonym byte = "8 word"

subsection \<open>\<^verbatim>\<open>JNI_OnLoad\<close>\<close>

text \<open>
  Modelled from the spec: the macro \<^verbatim>\<open>JNI_VERSION_1_2\<close> is declared in the JNI header,
  which is not among the sources; the spec calls it a fixed version token. The JNI headers
  give it the value \<^verbatim>\<open>0x00010002\<close>. No theorem below depends on that value.
\<close>

definition JNI_VERSION_1_2 :: jint where
  "JNI_VERSION_1_2 = 0x00010002"

text \<open>
  \<^verbatim>\<open>
  extern "C" jint JNIEXPORT JNICALL JNI_OnLoad(JavaVM *vm, void *reserved) {
      //HMODULE lib = LoadLibraryA("Ntdll");
      //pfQuerySystemTime = (NTSTATUS (WINAPI*)(LARGE_INTEGER*))GetProcAddress(lib, "NtQuerySystemTime");
      return JNI_VERSION_1_2;
  }
  \<close>
  Both statements that would load a library and set a function pointer are comments, and
  the pointer's declaration is a comment as well. The function is passed the state of the
  process, of any type, and hands it back next to its return value.
\<close>

definition JNI_OnLoad :: "'vm \<Rightarrow> 'reserved \<Rightarrow> 'process \<Rightarrow> jint \<times> 'process" where
  "JNI_OnLoad vm reserved process = (JNI_VERSION_1_2, process)"

subsection \<open>\<^verbatim>\<open>get\<close>\<close>

text \<open>
  \<^verbatim>\<open>FILETIME\<close> is a struct of two \<^verbatim>\<open>DWORD\<close>s, the low one first.
\<close>

record FILETIME =
  dwLowDateTime :: DWORD
  dwHighDateTime :: DWORD

text \<open>
  \<^verbatim>\<open>
  union {
      FILETIME fileTime;
      LARGE_INTEGER time;
      jlong time64;
  } t;
  GetSystemTimeAsFileTime(&t.fileTime);
  return t.time64;
  \<close>
  The function writes the union through one member and reads it through another, so the
  result is decided by the bytes the members share. The union is eight bytes of storage.
  Windows runs little-endian (x86, x64, ARM): a \<^verbatim>\<open>DWORD\<close> is stored least significant
  byte first, \<^verbatim>\<open>dwLowDateTime\<close> at offset 0 and \<^verbatim>\<open>dwHighDateTime\<close> at offset 4, and a
  \<^verbatim>\<open>jlong\<close> is read from eight bytes, least significant first.
\<close>

definition DWORD_bytes :: "DWORD \<Rightarrow> byte list" where
  "DWORD_bytes w = [ucast w, ucast (drop_bit 8 w), ucast (drop_bit 16 w), ucast (drop_bit 24 w)]"

text \<open>
  The storage of \<^verbatim>\<open>t\<close> after \<^verbatim>\<open>GetSystemTimeAsFileTime(&t.fileTime)\<close>, when the
  system time is \<open>now\<close>. The call writes all eight bytes, so what the storage held before
  does not matter.
\<close>

definition GetSystemTimeAsFileTime :: "FILETIME \<Rightarrow> byte list" where
  "GetSystemTimeAsFileTime now = DWORD_bytes (dwLowDateTime now) @ DWORD_bytes (dwHighDateTime now)"

text \<open>Reading the member \<^verbatim>\<open>time64\<close>: the first eight bytes as one 64-bit integer.\<close>

definition time64 :: "byte list \<Rightarrow> jlong" where
  "time64 t = foldr (\<lambda>b v. ucast b OR push_bit 8 v) (take 8 t) 0"

definition Java_javax_time_impl_WindowsSystemTime_get :: "FILETIME \<Rightarrow> jlong" where
  "Java_javax_time_impl_WindowsSystemTime_get now = time64 (GetSystemTimeAsFileTime now)"

text \<open>
  Two readings of the 64-bit number a \<^verbatim>\<open>FILETIME\<close> holds, as integers. They are not
  part of the source, which never does arithmetic on the value; the theorems about
  \<^verbatim>\<open>get\<close> are stated with them. The first is the count of 100-nanosecond ticks, the two
  \<^verbatim>\<open>DWORD\<close>s taken as one unsigned number. The second is the \<^verbatim>\<open>QuadPart\<close> of the
  union's \<^verbatim>\<open>LARGE_INTEGER\<close> member, whose high part is a signed \<^verbatim>\<open>LONG\<close>.
\<close>

definition FILETIME_ticks :: "FILETIME \<Rightarrow> int" where
  "FILETIME_ticks ft = uint (dwHighDateTime ft) * 2 ^ 32 + uint (dwLowDateTime ft)"

definition LARGE_INTEGER_QuadPart :: "FILETIME \<Rightarrow> int" where
  "LARGE_INTEGER_QuadPart ft = sint (dwHighDateTime ft) * 2 ^ 32 + uint (dwLowDateTime ft)"

subsection \<open>\<^verbatim>\<open>getAdjustment\<close>\<close>

text \<open>
  What \<^verbatim>\<open>GetSystemTimeAdjustment(&timeAdjustment, &timeIncrement, &disabled)\<close> leaves
  behind: its return value and the contents of the three locals after the call. On a
  failing call the locals hold whatever they held before, so the record carries values
  for them in that case too.
\<close>

record GetSystemTimeAdjustment_outcome =
  result :: BOOL
  timeAdjustment :: DWORD
  timeIncrement :: DWORD
  disabled :: BOOL

text \<open>
  \<^verbatim>\<open>
  if (!result)
      return -1;
  jlong t = (((jlong)timeAdjustment)<< 32) | ((jlong)timeIncrement);
  if (disabled)
      t |= (((jlong)1) << 63);
  return t;
  \<close>
  The casts from \<^verbatim>\<open>DWORD\<close> to \<^verbatim>\<open>jlong\<close> convert an unsigned value, so they
  extend with zeros (\<^const>\<open>ucast\<close>). The two left shifts can move a one into bit 63 of
  a signed operand; the compiler for this target shifts the two's complement bit pattern,
  which is what \<^const>\<open>push_bit\<close> does on a 64-bit word.
\<close>

definition Java_javax_time_impl_WindowsSystemTime_getAdjustment ::
  "GetSystemTimeAdjustment_outcome \<Rightarrow> jlong" where
  "Java_javax_time_impl_WindowsSystemTime_getAdjustment os =
     (if result os = 0 then - 1
      else
        let t = push_bit 32 (ucast (timeAdjustment os) :: jlong) OR (ucast (timeIncrement os) :: jlong)
        in if disabled os \<noteq> 0 then t OR push_bit 63 (1 :: jlong) else t)"

text \<open>
  A decoder for the result of \<^verbatim>\<open>getAdjustment\<close>. The source has none; this one reads
  the three fields where the description of the encoding puts them: the disabled flag in
  bit 63, the adjustment in bits 32 to 62 and the increment in bits 0 to 31.
\<close>

definition decode_disabled :: "jlong \<Rightarrow> bool" where
  "decode_disabled t = bit t 63"

definition decode_timeAdjustment :: "jlong \<Rightarrow> DWORD" where
  "decode_timeAdjustment t = ucast (take_bit 31 (drop_bit 32 t))"

definition decode_timeIncrement :: "jlong \<Rightarrow> DWORD" where
  "decode_timeIncrement t = ucast (take_bit 32 t)"

section \<open>Bits and values of a packed pair of \<^verbatim>\<open>DWORD\<close>s\<close>

text \<open>
  Both functions build a 64-bit value from two 32-bit halves. The lemmas of this section
  say which bit of the whole is which bit of a half, and what the whole is as a number.
\<close>

lemma bit_DWORD_pair:
  "bit (push_bit 32 (ucast (H :: DWORD) :: jlong) OR ucast (L :: DWORD)) n \<longleftrightarrow>
     (if n < 32 then bit L n else bit H (n - 32))"
  by (auto simp add: bit_simps dest: bit_imp_le_length)

lemma bit_sign_jlong: "bit (push_bit 63 (1 :: jlong)) n \<longleftrightarrow> n = 63"
  by (auto simp only: push_bit_of_1 bit_exp_iff possible_bit_word) simp

lemma uint_DWORD_pair:
  "uint (push_bit 32 (ucast (H :: DWORD) :: jlong) OR ucast (L :: DWORD)) = uint H * 2 ^ 32 + uint L"
proof -
  have H: "0 \<le> uint H" "uint H < 2 ^ 32" and L: "0 \<le> uint L" "uint L < 2 ^ 32"
    using uint_lt2p [of H] uint_lt2p [of L] by simp_all
  have "push_bit 32 (ucast H :: jlong) OR ucast L = word_cat H L"
    by (simp add: word_cat_eq_push_bit_or)
  also have "\<dots> = word_of_int (concat_bit 32 (uint L) (uint H))"
    by (simp only: word_cat_eq') simp
  finally have "uint (push_bit 32 (ucast H :: jlong) OR ucast L)
      = take_bit 64 (concat_bit 32 (uint L) (uint H))"
    by (simp only: uint_word_of_int_eq) simp
  also have "concat_bit 32 (uint L) (uint H) = uint L + uint H * 2 ^ 32"
    using L by (simp add: concat_bit_eq take_bit_int_eq_self push_bit_eq_mult)
  also have "take_bit 64 (uint L + uint H * 2 ^ 32) = uint L + uint H * 2 ^ 32"
    using H L by (intro take_bit_int_eq_self) auto
  finally show ?thesis by simp
qed

lemma sint_jlong: "sint (w :: jlong) = uint w - (if bit w 63 then 2 ^ 64 else 0)"
  by (simp add: sint_uint signed_take_bit_eq_take_bit_minus take_bit_int_eq_self bit_uint_iff
      uint_lt2p [of w, simplified])

lemma sint_DWORD: "sint (w :: DWORD) = uint w - (if bit w 31 then 2 ^ 32 else 0)"
  by (simp add: sint_uint signed_take_bit_eq_take_bit_minus take_bit_int_eq_self bit_uint_iff
      uint_lt2p [of w, simplified])

lemma sint_DWORD_pair:
  "sint (push_bit 32 (ucast (H :: DWORD) :: jlong) OR ucast (L :: DWORD)) = sint H * 2 ^ 32 + uint L"
  by (simp add: sint_jlong sint_DWORD uint_DWORD_pair bit_DWORD_pair)

lemma DWORD_top_bit: "(A :: DWORD) < 2 ^ 31 \<longleftrightarrow> \<not> bit A 31"
proof -
  have "A < 2 ^ 31 \<longleftrightarrow> uint A < 2 ^ 31"
    by (simp add: word_less_def)
  moreover have "- (2 ^ 31) \<le> sint A" and "sint A < 2 ^ 31"
    using sint_ge [of A] sint_lt [of A] by simp_all
  ultimately show ?thesis
    using sint_DWORD [of A] by (auto split: if_splits)
qed

section \<open>Properties of \<^verbatim>\<open>getAdjustment\<close>\<close>

text \<open>Every bit of the result of a successful call, in terms of the three outputs.\<close>

lemma bit_getAdjustment:
  assumes "result os \<noteq> 0"
  shows "bit (Java_javax_time_impl_WindowsSystemTime_getAdjustment os) n \<longleftrightarrow>
     (if n < 32 then bit (timeIncrement os) n
      else if n < 63 then bit (timeAdjustment os) (n - 32)
      else n = 63 \<and> (bit (timeAdjustment os) 31 \<or> disabled os \<noteq> 0))"
proof -
  let ?t = "push_bit 32 (ucast (timeAdjustment os) :: jlong) OR ucast (timeIncrement os)"
  have top: "n = 63" if "bit (timeAdjustment os) (n - 32)" "\<not> n < 63"
    using bit_imp_le_length [OF that(1)] that(2) by simp
  show ?thesis
  proof (cases "disabled os = 0")
    case True
    with assms have "Java_javax_time_impl_WindowsSystemTime_getAdjustment os = ?t"
      by (simp add: Java_javax_time_impl_WindowsSystemTime_getAdjustment_def)
    with True top show ?thesis
      by (auto simp add: bit_DWORD_pair)
  next
    case False
    with assms have "Java_javax_time_impl_WindowsSystemTime_getAdjustment os = ?t OR push_bit 63 1"
      by (simp only: Java_javax_time_impl_WindowsSystemTime_getAdjustment_def Let_def
          if_False if_True not_False_eq_True)
    then have "bit (Java_javax_time_impl_WindowsSystemTime_getAdjustment os) n \<longleftrightarrow> bit ?t n \<or> n = 63"
      by (simp only: bit_or_iff bit_sign_jlong)
    with False top show ?thesis
      by (auto simp add: bit_DWORD_pair)
  qed
qed

lemma getAdjustment_failure:
  "result os = 0 \<Longrightarrow> Java_javax_time_impl_WindowsSystemTime_getAdjustment os = - 1"
  by (simp add: Java_javax_time_impl_WindowsSystemTime_getAdjustment_def)

lemma getAdjustment_enabled:
  "result os \<noteq> 0 \<Longrightarrow> disabled os = 0 \<Longrightarrow>
   Java_javax_time_impl_WindowsSystemTime_getAdjustment os =
     push_bit 32 (ucast (timeAdjustment os)) OR ucast (timeIncrement os)"
  by (simp add: Java_javax_time_impl_WindowsSystemTime_getAdjustment_def)

lemma DWORD_low31_mask: "(0x7FFFFFFF :: DWORD) = mask 31"
  by (simp add: mask_eq_exp_minus_1)

lemma getAdjustment_all_ones_iff:
  assumes ok: "result os \<noteq> 0"
  shows "Java_javax_time_impl_WindowsSystemTime_getAdjustment os = - 1 \<longleftrightarrow>
     timeIncrement os = - 1 \<and>
     (timeAdjustment os = - 1 \<or> timeAdjustment os = 0x7FFFFFFF \<and> disabled os \<noteq> 0)"
    (is "?t = - 1 \<longleftrightarrow> ?rhs")
proof
  note bits = bit_getAdjustment [OF ok]
  assume "?t = - 1"
  then have set: "bit ?t n" if "n < 64" for n
    using that by simp
  have I: "timeIncrement os = - 1"
  proof (rule bit_word_eqI)
    fix n assume "n < LENGTH(32)"
    then have "n < 32" by simp
    with set [of n] bits [of n] show "bit (timeIncrement os) n \<longleftrightarrow> bit (- 1 :: DWORD) n"
      by simp
  qed
  have low: "bit (timeAdjustment os) n" if "n < 31" for n
    using set [of "32 + n"] bits [of "32 + n"] that by simp
  have top: "bit (timeAdjustment os) 31 \<or> disabled os \<noteq> 0"
    using set [of 63] bits [of 63] by simp
  have "timeAdjustment os = - 1" if "bit (timeAdjustment os) 31"
  proof (rule bit_word_eqI)
    fix n assume "n < LENGTH(32)"
    then have "n < 31 \<or> n = 31" by auto
    with low that show "bit (timeAdjustment os) n \<longleftrightarrow> bit (- 1 :: DWORD) n"
      by auto
  qed
  moreover have "timeAdjustment os = 0x7FFFFFFF" if "\<not> bit (timeAdjustment os) 31"
    unfolding DWORD_low31_mask
  proof (rule bit_word_eqI)
    fix n assume "n < LENGTH(32)"
    then have "n < 31 \<or> n = 31" by auto
    with low that show "bit (timeAdjustment os) n \<longleftrightarrow> bit (mask 31 :: DWORD) n"
      by (auto simp add: bit_mask_iff)
  qed
  ultimately show ?rhs
    using I top by auto
next
  note bits = bit_getAdjustment [OF ok]
  assume rhs: ?rhs
  show "?t = - 1"
  proof (rule bit_word_eqI)
    fix n assume "n < LENGTH(64)"
    then have n: "n < 64" by simp
    have low: "bit (timeAdjustment os) k" if "k < 31" for k
    proof -
      have "bit (mask 31 :: DWORD) k" and "bit (- 1 :: DWORD) k"
        using that by (simp_all add: bit_mask_iff)
      with rhs show ?thesis
        by (auto simp only: DWORD_low31_mask)
    qed
    have top: "bit (timeAdjustment os) 31 \<or> disabled os \<noteq> 0"
      using rhs by auto
    have "n < 32 \<or> (32 \<le> n \<and> n < 63 \<and> n - 32 < 31) \<or> n = 63"
      using n by auto
    then have "bit ?t n"
      using rhs low [of "n - 32"] top unfolding bits [of n] by auto
    with n show "bit ?t n \<longleftrightarrow> bit (- 1 :: jlong) n"
      by simp
  qed
qed

text \<open>
  C1, as amended. When the OS call succeeds and reports the adjustment as enabled
  (\<^verbatim>\<open>disabled\<close> is zero), the result is \<^verbatim>\<open>(A << 32) | I\<close> on 64 bits, the adjustment
  \<open>A\<close> and the increment \<open>I\<close> extended with zeros; as a number it is \<open>A * 2^32 + I\<close>.
  Bit 63 of the result is bit 31 of \<open>A\<close>: it is clear exactly when \<open>A < 2^31\<close>.
\<close>

theorem getAdjustment_enabled_layout:
  assumes "result os \<noteq> 0" and "disabled os = 0"
  shows "Java_javax_time_impl_WindowsSystemTime_getAdjustment os =
           push_bit 32 (ucast (timeAdjustment os)) OR ucast (timeIncrement os)
     \<and> uint (Java_javax_time_impl_WindowsSystemTime_getAdjustment os) =
           uint (timeAdjustment os) * 2 ^ 32 + uint (timeIncrement os)
     \<and> (bit (Java_javax_time_impl_WindowsSystemTime_getAdjustment os) 63 \<longleftrightarrow> bit (timeAdjustment os) 31)
     \<and> (\<not> bit (Java_javax_time_impl_WindowsSystemTime_getAdjustment os) 63 \<longleftrightarrow> timeAdjustment os < 2 ^ 31)"
proof -
  have top: "bit (Java_javax_time_impl_WindowsSystemTime_getAdjustment os) 63 \<longleftrightarrow> bit (timeAdjustment os) 31"
    using assms by (simp add: bit_getAdjustment)
  then have "\<not> bit (Java_javax_time_impl_WindowsSystemTime_getAdjustment os) 63 \<longleftrightarrow> timeAdjustment os < 2 ^ 31"
    by (simp only: DWORD_top_bit)
  moreover have "uint (Java_javax_time_impl_WindowsSystemTime_getAdjustment os) =
      uint (timeAdjustment os) * 2 ^ 32 + uint (timeIncrement os)"
    by (simp only: getAdjustment_enabled [OF assms] uint_DWORD_pair)
  ultimately show ?thesis
    using top getAdjustment_enabled [OF assms] by (intro conjI)
qed

theorem getAdjustment_enabled_layout_witness:
  "result \<lparr>result = 1, timeAdjustment = 156250, timeIncrement = 156001, disabled = 0\<rparr> \<noteq> 0
   \<and> disabled \<lparr>result = 1, timeAdjustment = 156250, timeIncrement = 156001, disabled = 0\<rparr> = 0
   \<and> uint (Java_javax_time_impl_WindowsSystemTime_getAdjustment
        \<lparr>result = 1, timeAdjustment = 156250, timeIncrement = 156001, disabled = 0\<rparr>)
      = 156250 * 2 ^ 32 + 156001
   \<and> \<not> bit (Java_javax_time_impl_WindowsSystemTime_getAdjustment
        \<lparr>result = 1, timeAdjustment = 156250, timeIncrement = 156001, disabled = 0\<rparr>) 63"
  using getAdjustment_enabled_layout
    [of "\<lparr>result = 1, timeAdjustment = 156250, timeIncrement = 156001, disabled = 0\<rparr>"]
  by simp

text \<open>
  C1 as stated fails: with the adjustment \<^verbatim>\<open>0x80000000\<close>, a successful call that reports
  the adjustment as enabled returns a value whose bit 63 is set.
\<close>

theorem getAdjustment_enabled_bit63_counterexample:
  "result \<lparr>result = 1, timeAdjustment = 0x80000000, timeIncrement = 0, disabled = 0\<rparr> \<noteq> 0
   \<and> disabled \<lparr>result = 1, timeAdjustment = 0x80000000, timeIncrement = 0, disabled = 0\<rparr> = 0
   \<and> bit (Java_javax_time_impl_WindowsSystemTime_getAdjustment
        \<lparr>result = 1, timeAdjustment = 0x80000000, timeIncrement = 0, disabled = 0\<rparr>) 63"
  by (simp add: bit_getAdjustment)

text \<open>
  C2. When the OS call succeeds and reports the adjustment as disabled, bit 63 of the
  result of \<^verbatim>\<open>getAdjustment\<close> is set, whatever the adjustment and the increment are,
  also when the top bit of the adjustment is clear.
\<close>

theorem getAdjustment_disabled_bit63:
  assumes "result os \<noteq> 0" and "disabled os \<noteq> 0"
  shows "bit (Java_javax_time_impl_WindowsSystemTime_getAdjustment os) 63"
  using assms by (simp add: bit_getAdjustment)

theorem getAdjustment_disabled_bit63_witness:
  "result \<lparr>result = 1, timeAdjustment = 156250, timeIncrement = 156250, disabled = 1\<rparr> \<noteq> 0
   \<and> disabled \<lparr>result = 1, timeAdjustment = 156250, timeIncrement = 156250, disabled = 1\<rparr> \<noteq> 0
   \<and> \<not> bit (timeAdjustment \<lparr>result = 1, timeAdjustment = 156250, timeIncrement = 156250, disabled = 1\<rparr>) 31
   \<and> bit (Java_javax_time_impl_WindowsSystemTime_getAdjustment
          \<lparr>result = 1, timeAdjustment = 156250, timeIncrement = 156250, disabled = 1\<rparr>) 63"
  using getAdjustment_disabled_bit63
    [of "\<lparr>result = 1, timeAdjustment = 156250, timeIncrement = 156250, disabled = 1\<rparr>"]
  by simp

text \<open>
  C3. \<^verbatim>\<open>getAdjustment\<close> returns \<^verbatim>\<open>-1\<close> if and only if the OS call reports failure, or
  it succeeds with outputs that pack to all ones: the increment is \<^verbatim>\<open>0xFFFFFFFF\<close> and
  the adjustment is \<^verbatim>\<open>0xFFFFFFFF\<close>, or \<^verbatim>\<open>0x7FFFFFFF\<close> with the disabled flag set.
  On failure the result is \<^verbatim>\<open>-1\<close> whatever the three out-parameters hold.
\<close>

theorem getAdjustment_minus_one_iff:
  "(Java_javax_time_impl_WindowsSystemTime_getAdjustment os = - 1 \<longleftrightarrow>
      result os = 0 \<or>
      timeIncrement os = - 1 \<and>
      (timeAdjustment os = - 1 \<or> timeAdjustment os = 0x7FFFFFFF \<and> disabled os \<noteq> 0))
   \<and> Java_javax_time_impl_WindowsSystemTime_getAdjustment
        \<lparr>result = 0, timeAdjustment = A, timeIncrement = I, disabled = d\<rparr> = - 1"
proof (intro conjI)
  show "Java_javax_time_impl_WindowsSystemTime_getAdjustment
        \<lparr>result = 0, timeAdjustment = A, timeIncrement = I, disabled = d\<rparr> = - 1"
    by (simp add: getAdjustment_failure)
  show "Java_javax_time_impl_WindowsSystemTime_getAdjustment os = - 1 \<longleftrightarrow>
      result os = 0 \<or>
      timeIncrement os = - 1 \<and>
      (timeAdjustment os = - 1 \<or> timeAdjustment os = 0x7FFFFFFF \<and> disabled os \<noteq> 0)"
  proof (cases "result os = 0")
    case True
    then show ?thesis by (simp add: getAdjustment_failure)
  next
    case False
    then show ?thesis by (simp only: getAdjustment_all_ones_iff simp_thms)
  qed
qed

text \<open>
  C4. The failure value is ambiguous: there is a successful OS outcome for which
  \<^verbatim>\<open>getAdjustment\<close> returns \<^verbatim>\<open>-1\<close>, the value a failing call returns.
\<close>

theorem getAdjustment_sentinel_ambiguous:
  "\<exists>succeeded failed.
     result succeeded \<noteq> 0 \<and> result failed = 0
     \<and> Java_javax_time_impl_WindowsSystemTime_getAdjustment succeeded = - 1
     \<and> Java_javax_time_impl_WindowsSystemTime_getAdjustment failed
         = Java_javax_time_impl_WindowsSystemTime_getAdjustment succeeded"
proof (intro exI conjI)
  let ?succeeded = "\<lparr>result = 1, timeAdjustment = - 1, timeIncrement = - 1, disabled = 0\<rparr>"
  let ?failed = "\<lparr>result = 0, timeAdjustment = 0, timeIncrement = 0, disabled = 0\<rparr>"
  show "result ?succeeded \<noteq> 0" and "result ?failed = 0"
    by simp_all
  show all_ones: "Java_javax_time_impl_WindowsSystemTime_getAdjustment ?succeeded = - 1"
    by (simp add: getAdjustment_all_ones_iff)
  show "Java_javax_time_impl_WindowsSystemTime_getAdjustment ?failed
      = Java_javax_time_impl_WindowsSystemTime_getAdjustment ?succeeded"
    by (simp only: all_ones) (simp add: getAdjustment_failure)
qed

text \<open>
  Setting the disabled flag and clearing the top bit of the adjustment does not change
  the result of a successful call whose adjustment has its top bit set.
\<close>

lemma getAdjustment_flag_overlays_top_bit:
  assumes "result os \<noteq> 0" and "disabled os = 0" and "bit (timeAdjustment os) 31" and "d \<noteq> 0"
  shows "Java_javax_time_impl_WindowsSystemTime_getAdjustment
           (os\<lparr>timeAdjustment := unset_bit 31 (timeAdjustment os), disabled := d\<rparr>)
         = Java_javax_time_impl_WindowsSystemTime_getAdjustment os"
proof (rule bit_word_eqI)
  fix n :: nat
  assume "n < LENGTH(64)"
  have "n - 32 \<noteq> 31" if "n < 63"
    using that by auto
  with assms
  show "bit (Java_javax_time_impl_WindowsSystemTime_getAdjustment
           (os\<lparr>timeAdjustment := unset_bit 31 (timeAdjustment os), disabled := d\<rparr>)) n
      \<longleftrightarrow> bit (Java_javax_time_impl_WindowsSystemTime_getAdjustment os) n"
    by (simp add: bit_getAdjustment bit_unset_bit_iff)
qed

text \<open>
  C5. The encoding of \<^verbatim>\<open>getAdjustment\<close> is not injective: there are two distinct
  successful OS outcomes, one with the top bit of the adjustment set and the adjustment
  enabled, the other with the adjustment disabled and an adjustment that differs from the
  first only in that top bit, that give the same result.
\<close>

theorem getAdjustment_not_injective:
  "\<exists>os os'.
     os \<noteq> os' \<and> result os \<noteq> 0 \<and> result os' \<noteq> 0
     \<and> disabled os = 0 \<and> bit (timeAdjustment os) 31
     \<and> disabled os' \<noteq> 0 \<and> timeAdjustment os' = timeAdjustment os XOR 0x80000000
     \<and> timeIncrement os' = timeIncrement os
     \<and> Java_javax_time_impl_WindowsSystemTime_getAdjustment os
         = Java_javax_time_impl_WindowsSystemTime_getAdjustment os'"
proof (intro exI conjI)
  let ?os = "\<lparr>result = 1, timeAdjustment = 0x80026259, timeIncrement = 156250, disabled = 0\<rparr>"
  let ?os' = "\<lparr>result = 1, timeAdjustment = 0x00026259, timeIncrement = 156250, disabled = 1\<rparr>"
  show "?os \<noteq> ?os'" and "result ?os \<noteq> 0" and "result ?os' \<noteq> 0" and "disabled ?os = 0"
    and "disabled ?os' \<noteq> 0" and "timeAdjustment ?os' = timeAdjustment ?os XOR 0x80000000"
    and "timeIncrement ?os' = timeIncrement ?os"
    by simp_all
  show top: "bit (timeAdjustment ?os) 31"
    by simp
  have "?os' = ?os\<lparr>timeAdjustment := unset_bit 31 (timeAdjustment ?os), disabled := 1\<rparr>"
    by simp
  then show "Java_javax_time_impl_WindowsSystemTime_getAdjustment ?os
      = Java_javax_time_impl_WindowsSystemTime_getAdjustment ?os'"
    using getAdjustment_flag_overlays_top_bit [of ?os 1] top by simp
qed

text \<open>
  C9. On every successful OS outcome the increment is extended with zeros before it is
  combined: bits 0 to 31 of the result of \<^verbatim>\<open>getAdjustment\<close> are the bits of the
  increment, and bits 32 to 62 are bits 0 to 30 of the adjustment, also when the top bit
  of the increment is set.
\<close>

theorem getAdjustment_fields:
  assumes "result os \<noteq> 0"
  shows "(\<forall>n<32. bit (Java_javax_time_impl_WindowsSystemTime_getAdjustment os) n
            \<longleftrightarrow> bit (timeIncrement os) n)
     \<and> (\<forall>n<31. bit (Java_javax_time_impl_WindowsSystemTime_getAdjustment os) (32 + n)
            \<longleftrightarrow> bit (timeAdjustment os) n)
     \<and> ucast (Java_javax_time_impl_WindowsSystemTime_getAdjustment os) = timeIncrement os
     \<and> ucast (take_bit 31 (drop_bit 32 (Java_javax_time_impl_WindowsSystemTime_getAdjustment os)))
          = take_bit 31 (timeAdjustment os)"
proof (intro conjI allI impI)
  note bits = bit_getAdjustment [OF assms]
  show "bit (Java_javax_time_impl_WindowsSystemTime_getAdjustment os) n \<longleftrightarrow> bit (timeIncrement os) n"
    if "n < 32" for n
    using that by (simp add: bits)
  show "bit (Java_javax_time_impl_WindowsSystemTime_getAdjustment os) (32 + n) \<longleftrightarrow> bit (timeAdjustment os) n"
    if "n < 31" for n
    using that by (simp add: bits)
  show "ucast (Java_javax_time_impl_WindowsSystemTime_getAdjustment os) = timeIncrement os"
    by (rule bit_word_eqI) (simp add: bit_ucast_iff bits)
  show "ucast (take_bit 31 (drop_bit 32 (Java_javax_time_impl_WindowsSystemTime_getAdjustment os)))
      = take_bit 31 (timeAdjustment os)"
    by (rule bit_word_eqI) (auto simp add: bit_ucast_iff bit_take_bit_iff bit_drop_bit_eq bits)
qed

theorem getAdjustment_fields_witness:
  "result \<lparr>result = 1, timeAdjustment = 1, timeIncrement = 0x80000000, disabled = 0\<rparr> \<noteq> 0
   \<and> bit (timeIncrement \<lparr>result = 1, timeAdjustment = 1, timeIncrement = 0x80000000, disabled = 0\<rparr>) 31
   \<and> ucast (Java_javax_time_impl_WindowsSystemTime_getAdjustment
        \<lparr>result = 1, timeAdjustment = 1, timeIncrement = 0x80000000, disabled = 0\<rparr>)
      = (0x80000000 :: DWORD)
   \<and> ucast (take_bit 31 (drop_bit 32 (Java_javax_time_impl_WindowsSystemTime_getAdjustment
        \<lparr>result = 1, timeAdjustment = 1, timeIncrement = 0x80000000, disabled = 0\<rparr>)))
      = (1 :: DWORD)"
  using getAdjustment_fields
    [of "\<lparr>result = 1, timeAdjustment = 1, timeIncrement = 0x80000000, disabled = 0\<rparr>"]
  by simp

text \<open>
  C10. On the successful OS outcomes whose adjustment is below \<open>2^31\<close> the encoding of
  \<^verbatim>\<open>getAdjustment\<close> can be decoded: bit 63 of the result is the disabled flag, bits 32 to
  62 are the adjustment and bits 0 to 31 are the increment. So on these outcomes two
  results are equal only if the adjustments, the increments and the truth values of the
  disabled flags are.
\<close>

theorem getAdjustment_roundtrip:
  assumes "result os \<noteq> 0" and "timeAdjustment os < 2 ^ 31"
    and "result os' \<noteq> 0" and "timeAdjustment os' < 2 ^ 31"
  shows "decode_disabled (Java_javax_time_impl_WindowsSystemTime_getAdjustment os) = (disabled os \<noteq> 0)
     \<and> decode_timeAdjustment (Java_javax_time_impl_WindowsSystemTime_getAdjustment os) = timeAdjustment os
     \<and> decode_timeIncrement (Java_javax_time_impl_WindowsSystemTime_getAdjustment os) = timeIncrement os
     \<and> (Java_javax_time_impl_WindowsSystemTime_getAdjustment os
          = Java_javax_time_impl_WindowsSystemTime_getAdjustment os' \<longleftrightarrow>
        timeAdjustment os = timeAdjustment os' \<and> timeIncrement os = timeIncrement os'
        \<and> (disabled os \<noteq> 0) = (disabled os' \<noteq> 0))"
proof -
  have decode: "decode_disabled (Java_javax_time_impl_WindowsSystemTime_getAdjustment x) = (disabled x \<noteq> 0)
     \<and> decode_timeAdjustment (Java_javax_time_impl_WindowsSystemTime_getAdjustment x) = timeAdjustment x
     \<and> decode_timeIncrement (Java_javax_time_impl_WindowsSystemTime_getAdjustment x) = timeIncrement x"
    if ok: "result x \<noteq> 0" and small: "timeAdjustment x < 2 ^ 31" for x
  proof (intro conjI)
    note bits = bit_getAdjustment [OF ok]
    from small have top: "\<not> bit (timeAdjustment x) 31"
      unfolding DWORD_top_bit .
    show "decode_disabled (Java_javax_time_impl_WindowsSystemTime_getAdjustment x) = (disabled x \<noteq> 0)"
      using top by (simp add: decode_disabled_def bits)
    show "decode_timeIncrement (Java_javax_time_impl_WindowsSystemTime_getAdjustment x) = timeIncrement x"
      unfolding decode_timeIncrement_def
      by (rule bit_word_eqI) (simp add: bit_ucast_iff bit_take_bit_iff bits)
    show "decode_timeAdjustment (Java_javax_time_impl_WindowsSystemTime_getAdjustment x) = timeAdjustment x"
      unfolding decode_timeAdjustment_def
    proof (rule bit_word_eqI)
      fix n :: nat
      assume "n < LENGTH(32)"
      then have "n < 31 \<or> n = 31" by auto
      then show "bit (ucast (take_bit 31 (drop_bit 32
            (Java_javax_time_impl_WindowsSystemTime_getAdjustment x))) :: DWORD) n
          \<longleftrightarrow> bit (timeAdjustment x) n"
        using top by (auto simp add: bit_ucast_iff bit_take_bit_iff bit_drop_bit_eq bits)
    qed
  qed
  have "Java_javax_time_impl_WindowsSystemTime_getAdjustment os
          = Java_javax_time_impl_WindowsSystemTime_getAdjustment os' \<longleftrightarrow>
        timeAdjustment os = timeAdjustment os' \<and> timeIncrement os = timeIncrement os'
        \<and> (disabled os \<noteq> 0) = (disabled os' \<noteq> 0)"
  proof
    assume "Java_javax_time_impl_WindowsSystemTime_getAdjustment os
          = Java_javax_time_impl_WindowsSystemTime_getAdjustment os'"
    with decode [OF assms(1,2)] decode [OF assms(3,4)]
    show "timeAdjustment os = timeAdjustment os' \<and> timeIncrement os = timeIncrement os'
        \<and> (disabled os \<noteq> 0) = (disabled os' \<noteq> 0)"
      by metis
  next
    assume same: "timeAdjustment os = timeAdjustment os' \<and> timeIncrement os = timeIncrement os'
        \<and> (disabled os \<noteq> 0) = (disabled os' \<noteq> 0)"
    show "Java_javax_time_impl_WindowsSystemTime_getAdjustment os
          = Java_javax_time_impl_WindowsSystemTime_getAdjustment os'"
      by (rule bit_word_eqI)
        (use same in \<open>simp add: bit_getAdjustment [OF assms(1)] bit_getAdjustment [OF assms(3)]\<close>)
  qed
  with decode [OF assms(1,2)] show ?thesis
    by simp
qed

theorem getAdjustment_roundtrip_witness:
  "result \<lparr>result = 1, timeAdjustment = 156250, timeIncrement = 156001, disabled = 7\<rparr> \<noteq> 0
   \<and> timeAdjustment \<lparr>result = 1, timeAdjustment = 156250, timeIncrement = 156001, disabled = 7\<rparr> < 2 ^ 31
   \<and> decode_disabled (Java_javax_time_impl_WindowsSystemTime_getAdjustment
        \<lparr>result = 1, timeAdjustment = 156250, timeIncrement = 156001, disabled = 7\<rparr>)
   \<and> decode_timeAdjustment (Java_javax_time_impl_WindowsSystemTime_getAdjustment
        \<lparr>result = 1, timeAdjustment = 156250, timeIncrement = 156001, disabled = 7\<rparr>) = 156250
   \<and> decode_timeIncrement (Java_javax_time_impl_WindowsSystemTime_getAdjustment
        \<lparr>result = 1, timeAdjustment = 156250, timeIncrement = 156001, disabled = 7\<rparr>) = 156001
   \<and> Java_javax_time_impl_WindowsSystemTime_getAdjustment
        \<lparr>result = 1, timeAdjustment = 156250, timeIncrement = 156001, disabled = 7\<rparr>
      \<noteq> Java_javax_time_impl_WindowsSystemTime_getAdjustment
        \<lparr>result = 1, timeAdjustment = 156250, timeIncrement = 156001, disabled = 0\<rparr>"
  using getAdjustment_roundtrip
    [of "\<lparr>result = 1, timeAdjustment = 156250, timeIncrement = 156001, disabled = 7\<rparr>"
        "\<lparr>result = 1, timeAdjustment = 156250, timeIncrement = 156001, disabled = 0\<rparr>"]
  by simp

section \<open>Properties of \<^verbatim>\<open>JNI_OnLoad\<close>\<close>

text \<open>
  C6. \<^verbatim>\<open>JNI_OnLoad\<close> returns the version token \<^verbatim>\<open>JNI_VERSION_1_2\<close> for every pair of
  arguments and leaves the state of the process as it found it: it loads no library and
  resolves no symbol.
\<close>

theorem JNI_OnLoad_version:
  "JNI_OnLoad vm reserved process = (JNI_VERSION_1_2, process)"
  by (simp add: JNI_OnLoad_def)

section \<open>Properties of \<^verbatim>\<open>get\<close>\<close>

lemma length_DWORD_bytes: "length (DWORD_bytes w) = 4"
  by (simp add: DWORD_bytes_def)

text \<open>Four bytes written from a \<^verbatim>\<open>DWORD\<close> and read back as the low end of a 64-bit value.\<close>

lemma foldr_DWORD_bytes:
  "foldr (\<lambda>b v. ucast b OR push_bit 8 v) (DWORD_bytes w) (v :: jlong) = ucast w OR push_bit 32 v"
  unfolding DWORD_bytes_def
  by (rule bit_word_eqI) (auto simp add: bit_simps dest: bit_imp_le_length)

lemma get_DWORD_pair:
  "Java_javax_time_impl_WindowsSystemTime_get now =
     push_bit 32 (ucast (dwHighDateTime now)) OR ucast (dwLowDateTime now)"
  by (simp add: Java_javax_time_impl_WindowsSystemTime_get_def time64_def
      GetSystemTimeAsFileTime_def length_DWORD_bytes foldr_DWORD_bytes or.commute)

lemma uint_get: "uint (Java_javax_time_impl_WindowsSystemTime_get now) = FILETIME_ticks now"
  by (simp only: get_DWORD_pair uint_DWORD_pair FILETIME_ticks_def)

lemma sint_get: "sint (Java_javax_time_impl_WindowsSystemTime_get now) = LARGE_INTEGER_QuadPart now"
  by (simp only: get_DWORD_pair sint_DWORD_pair LARGE_INTEGER_QuadPart_def)

text \<open>Below \<open>2^63\<close> ticks the signed and the unsigned reading of a \<^verbatim>\<open>FILETIME\<close> agree.\<close>

lemma QuadPart_eq_ticks:
  assumes "FILETIME_ticks ft < 2 ^ 63"
  shows "LARGE_INTEGER_QuadPart ft = FILETIME_ticks ft"
proof -
  from assms
  have "uint (dwHighDateTime ft) * 4294967296 + uint (dwLowDateTime ft) < 9223372036854775808"
    by (simp add: FILETIME_ticks_def)
  moreover have "0 \<le> uint (dwLowDateTime ft)"
    by simp
  ultimately have "uint (dwHighDateTime ft) < 2147483648"
    by linarith
  then have "dwHighDateTime ft < 2 ^ 31"
    by (simp add: word_less_def)
  then have "\<not> bit (dwHighDateTime ft) 31"
    unfolding DWORD_top_bit .
  then have "sint (dwHighDateTime ft) = uint (dwHighDateTime ft)"
    by (simp add: sint_DWORD)
  then show ?thesis
    by (simp add: LARGE_INTEGER_QuadPart_def FILETIME_ticks_def)
qed

text \<open>
  C7. \<^verbatim>\<open>get\<close> returns the 64-bit value the OS wrote into the \<^verbatim>\<open>FILETIME\<close>, bit for
  bit: the low \<^verbatim>\<open>DWORD\<close> in bits 0 to 31 and the high \<^verbatim>\<open>DWORD\<close> in bits 32 to 63. As an
  unsigned number the result is the tick count, as a signed one it is the \<^verbatim>\<open>QuadPart\<close>.
  The function has no failure value.
\<close>

theorem get_raw_value:
  "ucast (Java_javax_time_impl_WindowsSystemTime_get now) = dwLowDateTime now
   \<and> ucast (drop_bit 32 (Java_javax_time_impl_WindowsSystemTime_get now)) = dwHighDateTime now
   \<and> (bit (Java_javax_time_impl_WindowsSystemTime_get now) n \<longleftrightarrow>
        (if n < 32 then bit (dwLowDateTime now) n else bit (dwHighDateTime now) (n - 32)))
   \<and> uint (Java_javax_time_impl_WindowsSystemTime_get now) = FILETIME_ticks now
   \<and> sint (Java_javax_time_impl_WindowsSystemTime_get now) = LARGE_INTEGER_QuadPart now"
proof (intro conjI)
  show bits: "bit (Java_javax_time_impl_WindowsSystemTime_get now) n \<longleftrightarrow>
      (if n < 32 then bit (dwLowDateTime now) n else bit (dwHighDateTime now) (n - 32))" for n
    by (simp only: get_DWORD_pair bit_DWORD_pair)
  show "ucast (Java_javax_time_impl_WindowsSystemTime_get now) = dwLowDateTime now"
    by (rule bit_word_eqI) (simp add: bit_ucast_iff bits)
  show "ucast (drop_bit 32 (Java_javax_time_impl_WindowsSystemTime_get now)) = dwHighDateTime now"
    by (rule bit_word_eqI) (simp add: bit_ucast_iff bit_drop_bit_eq bits)
  show "uint (Java_javax_time_impl_WindowsSystemTime_get now) = FILETIME_ticks now"
    by (rule uint_get)
  show "sint (Java_javax_time_impl_WindowsSystemTime_get now) = LARGE_INTEGER_QuadPart now"
    by (rule sint_get)
qed

text \<open>
  C8. Consecutive calls of \<^verbatim>\<open>get\<close> read the clock one after the other; \<open>clock\<close> is the
  list of the values the OS supplies to them. If these values never decrease, the values
  \<^verbatim>\<open>get\<close> returns never decrease. This holds with both sequences read as signed 64-bit
  numbers, as Java reads a \<^verbatim>\<open>jlong\<close>, and with both read as unsigned tick counts; and a
  sequence of tick counts below \<open>2^63\<close> that never decreases gives results that never
  decrease as signed numbers.
\<close>

theorem get_monotone:
  "(sorted (map LARGE_INTEGER_QuadPart clock) \<longrightarrow>
      sorted_wrt (\<le>s) (map Java_javax_time_impl_WindowsSystemTime_get clock))
   \<and> (sorted (map FILETIME_ticks clock) \<longrightarrow>
      sorted (map Java_javax_time_impl_WindowsSystemTime_get clock))
   \<and> (sorted (map FILETIME_ticks clock) \<and> (\<forall>now \<in> set clock. FILETIME_ticks now < 2 ^ 63) \<longrightarrow>
      sorted_wrt (\<le>s) (map Java_javax_time_impl_WindowsSystemTime_get clock))"
proof (intro conjI impI)
  show signed: "sorted_wrt (\<le>s) (map Java_javax_time_impl_WindowsSystemTime_get clock)"
    if "sorted (map LARGE_INTEGER_QuadPart clock)"
    using that by (simp add: sorted_wrt_map word_sle_eq sint_get)
  show "sorted (map Java_javax_time_impl_WindowsSystemTime_get clock)"
    if "sorted (map FILETIME_ticks clock)"
    using that by (simp add: sorted_wrt_map word_le_def uint_get)
  show "sorted_wrt (\<le>s) (map Java_javax_time_impl_WindowsSystemTime_get clock)"
    if "sorted (map FILETIME_ticks clock) \<and> (\<forall>now \<in> set clock. FILETIME_ticks now < 2 ^ 63)"
  proof -
    from that have "map LARGE_INTEGER_QuadPart clock = map FILETIME_ticks clock"
      by (simp add: QuadPart_eq_ticks)
    with that show ?thesis
      by (simp only: signed)
  qed
qed

theorem get_monotone_witness:
  "sorted (map LARGE_INTEGER_QuadPart
      [\<lparr>dwLowDateTime = 0xFFFFFFFF, dwHighDateTime = 0x01DC4A3B\<rparr>,
       \<lparr>dwLowDateTime = 0xFFFFFFFF, dwHighDateTime = 0x01DC4A3B\<rparr>,
       \<lparr>dwLowDateTime = 0, dwHighDateTime = 0x01DC4A3C\<rparr>])
   \<and> sorted (map FILETIME_ticks
      [\<lparr>dwLowDateTime = 0xFFFFFFFF, dwHighDateTime = 0x01DC4A3B\<rparr>,
       \<lparr>dwLowDateTime = 0xFFFFFFFF, dwHighDateTime = 0x01DC4A3B\<rparr>,
       \<lparr>dwLowDateTime = 0, dwHighDateTime = 0x01DC4A3C\<rparr>])
   \<and> FILETIME_ticks \<lparr>dwLowDateTime = 0, dwHighDateTime = 0x01DC4A3C\<rparr> < 2 ^ 63
   \<and> sorted_wrt (\<le>s) (map Java_javax_time_impl_WindowsSystemTime_get
      [\<lparr>dwLowDateTime = 0xFFFFFFFF, dwHighDateTime = 0x01DC4A3B\<rparr>,
       \<lparr>dwLowDateTime = 0xFFFFFFFF, dwHighDateTime = 0x01DC4A3B\<rparr>,
       \<lparr>dwLowDateTime = 0, dwHighDateTime = 0x01DC4A3C\<rparr>])
   \<and> sorted (map Java_javax_time_impl_WindowsSystemTime_get
      [\<lparr>dwLowDateTime = 0xFFFFFFFF, dwHighDateTime = 0x01DC4A3B\<rparr>,
       \<lparr>dwLowDateTime = 0xFFFFFFFF, dwHighDateTime = 0x01DC4A3B\<rparr>,
       \<lparr>dwLowDateTime = 0, dwHighDateTime = 0x01DC4A3C\<rparr>])"
  using get_monotone
    [of "[\<lparr>dwLowDateTime = 0xFFFFFFFF, dwHighDateTime = 0x01DC4A3B\<rparr>,
          \<lparr>dwLowDateTime = 0xFFFFFFFF, dwHighDateTime = 0x01DC4A3B\<rparr>,
          \<lparr>dwLowDateTime = 0, dwHighDateTime = 0x01DC4A3C\<rparr>]"]
  by (simp add: LARGE_INTEGER_QuadPart_def FILETIME_ticks_def)

end
